theory Spec2Isabelle
  imports Complex_Main
begin

section \<open>Portfolio service: data model\<close>

text \<open>
  The service keeps one JSON file \<^verbatim>\<open>portfolios.json\<close>, a dictionary from user id to
  portfolio. Every route loads the whole dictionary, works on the in-memory copy and
  writes it back with \<^verbatim>\<open>save_portfolios\<close> as its last step before returning, so an
  exception raised on the way leaves the file as it was. The model therefore takes the
  file's content as the state: a route maps the content before the call to the content
  after the call together with the outcome (\<open>Inl\<close> the exception, \<open>Inr\<close> the response).
  A missing file reads as the empty dictionary (\<^verbatim>\<open>load_portfolios\<close>).

  The two routes that trade are written once, for any type of numbers with the
  operations the source uses, and read at two types. At \<open>real\<close> the arithmetic of
  Python's \<^verbatim>\<open>float\<close> is idealised as exact: this is the reading for what the routes
  compute. At \<open>double\<close> the numbers are the finite values, the two infinities and NaN,
  with overflow and the IEEE 754 rules for them: this is the reading for the sign of the
  cash, which overflow decides. Rounding of finite results is modelled at neither type.
  The valuation is read at \<open>real\<close>. Division by zero raises in Python and is a branch
  of the model.

  Field names follow the source. The fields of a transaction carry the prefix \<open>t_\<close>,
  those of a request \<open>req_\<close> and those of the performance report \<open>perf_\<close>, since
  a record field is a constant of the theory and the source reuses \<^verbatim>\<open>ticker\<close>,
  \<^verbatim>\<open>quantity\<close>, \<^verbatim>\<open>cash\<close> and others across its dictionaries.
\<close>

record 'n position =
  ticker :: string
  quantity :: 'n
  avgCostBasis :: 'n
  currentPrice :: "'n option"
  marketValue :: "'n option"
  unrealizedPL :: "'n option"
  unrealizedPLPercent :: "'n option"
  addedAt :: string

record 'n transaction =
  t_id :: string
  t_ticker :: string
  t_type :: string
  t_quantity :: 'n
  t_price :: 'n
  t_timestamp :: string
  t_fees :: 'n

record 'n portfolio =
  userId :: string
  cash :: 'n
  positions :: "'n position list"
  transactions :: "'n transaction list"
  totalValue :: "'n option"
  totalPL :: "'n option"
  totalPLPercent :: "'n option"

text \<open>\<^verbatim>\<open>AddPositionRequest\<close> and \<^verbatim>\<open>RemovePositionRequest\<close> have the same three fields.\<close>

record 'n position_request =
  req_ticker :: string
  req_quantity :: 'n
  req_price :: 'n

record trade_response =
  message :: string
  transactionId :: string

type_synonym 'n portfolios = "string \<rightharpoonup> 'n portfolio"

text \<open>
  The exceptions a route can raise: the \<^verbatim>\<open>HTTPException\<close>s of the source with their
  status code and detail, Python's \<^verbatim>\<open>ZeroDivisionError\<close> of a float division, and the
  \<^verbatim>\<open>KeyError\<close> of reading a dictionary key that is not set.
\<close>

datatype error = HTTPException nat string | ZeroDivisionError | KeyError string

definition PortfolioNotFound :: error where
  "PortfolioNotFound = HTTPException 404 ''Portfolio not found''"

definition InsufficientFunds :: error where
  "InsufficientFunds = HTTPException 400 ''Insufficient funds''"

definition PositionNotFound :: error where
  "PositionNotFound = HTTPException 404 ''Position not found''"

definition InsufficientShares :: error where
  "InsufficientShares = HTTPException 400 ''Insufficient shares''"

section \<open>Double arithmetic\<close>

text \<open>
  A Python \<^verbatim>\<open>float\<close> is an IEEE 754 double: a finite value, one of the two infinities, or
  NaN. The operations follow IEEE 754 on the infinities and on NaN, and a finite result
  whose magnitude reaches \<open>2^1024 - 2^970\<close>, where rounding to nearest gives up the
  largest finite double, overflows to the infinity of its sign. A finite result below
  that is kept as it is: rounding to 53 bits is not modelled, and neither is the sign of
  zero. Every comparison with NaN is false.
\<close>

datatype double = Finite real | PosInf | NegInf | NaN

definition overflow_threshold :: real where
  "overflow_threshold = 2 ^ 1024 - 2 ^ 970"

definition round_double :: "real \<Rightarrow> double" where
  "round_double r =
     (if overflow_threshold \<le> r then PosInf
      else if r \<le> - overflow_threshold then NegInf
      else Finite r)"


text \<open>The infinity with the sign of a product or quotient; a zero factor gives NaN.\<close>

definition signed_inf :: "real \<Rightarrow> double" where
  "signed_inf a = (if 0 < a then PosInf else if a < 0 then NegInf else NaN)"

fun double_sign :: "double \<Rightarrow> real" where
  "double_sign (Finite a) = sgn a"
| "double_sign PosInf = 1"
| "double_sign NegInf = - 1"
| "double_sign NaN = 0"

fun double_neg :: "double \<Rightarrow> double" where
  "double_neg (Finite a) = Finite (- a)"
| "double_neg PosInf = NegInf"
| "double_neg NegInf = PosInf"
| "double_neg NaN = NaN"

fun double_add :: "double \<Rightarrow> double \<Rightarrow> double" where
  "double_add NaN y = NaN"
| "double_add x NaN = NaN"
| "double_add (Finite a) (Finite b) = round_double (a + b)"
| "double_add PosInf NegInf = NaN"
| "double_add NegInf PosInf = NaN"
| "double_add PosInf y = PosInf"
| "double_add x PosInf = PosInf"
| "double_add NegInf y = NegInf"
| "double_add x NegInf = NegInf"

fun double_mul :: "double \<Rightarrow> double \<Rightarrow> double" where
  "double_mul NaN y = NaN"
| "double_mul x NaN = NaN"
| "double_mul (Finite a) (Finite b) = round_double (a * b)"
| "double_mul x y = signed_inf (double_sign x * double_sign y)"

text \<open>
  Python raises \<^verbatim>\<open>ZeroDivisionError\<close> on a zero divisor, where IEEE 754 has an infinity
  or NaN; the route that divides tests the divisor first, so the value given here for a
  zero divisor is never used.
\<close>

fun double_div :: "double \<Rightarrow> double \<Rightarrow> double" where
  "double_div NaN y = NaN"
| "double_div x NaN = NaN"
| "double_div (Finite a) (Finite b) = (if b = 0 then NaN else round_double (a / b))"
| "double_div (Finite a) y = Finite 0"
| "double_div x (Finite b) = signed_inf (double_sign x * sgn b)"
| "double_div x y = NaN"

fun double_less :: "double \<Rightarrow> double \<Rightarrow> bool" where
  "double_less NaN y = False"
| "double_less x NaN = False"
| "double_less (Finite a) (Finite b) = (a < b)"
| "double_less x NegInf = False"
| "double_less PosInf y = False"
| "double_less x y = True"

instantiation double :: "{zero,plus,minus,uminus,times,inverse,ord}"
begin

definition zero_double :: double where
  "zero_double = Finite 0"

definition plus_double :: "double \<Rightarrow> double \<Rightarrow> double" where
  "plus_double x y = double_add x y"

definition uminus_double :: "double \<Rightarrow> double" where
  "uminus_double x = double_neg x"

definition minus_double :: "double \<Rightarrow> double \<Rightarrow> double" where
  "minus_double x y = double_add x (double_neg y)"

definition times_double :: "double \<Rightarrow> double \<Rightarrow> double" where
  "times_double x y = double_mul x y"

definition divide_double :: "double \<Rightarrow> double \<Rightarrow> double" where
  "divide_double x y = double_div x y"

definition inverse_double :: "double \<Rightarrow> double" where
  "inverse_double x = double_div (Finite 1) x"

definition less_double :: "double \<Rightarrow> double \<Rightarrow> bool" where
  "less_double x y = double_less x y"

definition less_eq_double :: "double \<Rightarrow> double \<Rightarrow> bool" where
  "less_eq_double x y = (double_less x y \<or> (x = y \<and> x \<noteq> NaN))"

instance ..

end

section \<open>Helpers\<close>

text \<open>
  \<^verbatim>\<open>verify_token\<close> accepts any token and answers the mock user; the routes read the user
  id from its result.
\<close>

definition verify_token :: "string option \<Rightarrow> string" where
  "verify_token authorization = ''user_1''"

text \<open>
  The loop \<^verbatim>\<open>for pos in portfolio['positions']: if pos['ticker'] == request.ticker: ... break\<close>
  of both routes: the index of the first position with the ticker. The source keeps a
  reference to that list element and mutates it in place; the model updates the list
  at the index. A position dictionary is never empty, so the tests
  \<^verbatim>\<open>if existing_position\<close> and \<^verbatim>\<open>if not position\<close> tell a found position from \<^verbatim>\<open>None\<close>.
\<close>

fun find_position :: "string \<Rightarrow> 'n position list \<Rightarrow> nat option" where
  "find_position t [] = None"
| "find_position t (pos # rest) =
     (if ticker pos = t then Some 0 else map_option Suc (find_position t rest))"

text \<open>
  Python's \<^verbatim>\<open>str\<close> of a non-negative integer, as the f-string of the transaction id uses
  it. \<open>str_nat\<close> asks \<open>digit_char\<close> for digits below 10 only.
\<close>

definition digit_char :: "nat \<Rightarrow> char" where
  "digit_char d = ''0123456789'' ! d"

fun str_nat :: "nat \<Rightarrow> string" where
  "str_nat n = (if n < 10 then [digit_char n] else str_nat (n div 10) @ [digit_char (n mod 10)])"

declare str_nat.simps [simp del]

definition transaction_id_of :: "'n transaction list \<Rightarrow> string" where
  "transaction_id_of txns = ''txn_'' @ str_nat (length txns + 1)"

section \<open>The routes that trade\<close>

text \<open>
  \<^verbatim>\<open>buy_stock\<close>, for any type of numbers. The two readings of the clock (\<^verbatim>\<open>datetime.utcnow().isoformat()\<close>, for
  \<^verbatim>\<open>addedAt\<close> and for the transaction's timestamp) are arguments. The division that
  averages the cost raises when the new total quantity is zero; the cash was deducted in
  memory by then, but nothing has been saved.
\<close>

definition buy_stock_generic ::
  "'n::{zero,plus,minus,times,inverse,ord} position_request \<Rightarrow> string \<Rightarrow> string \<Rightarrow> string \<Rightarrow>
     'n portfolios \<Rightarrow> 'n portfolios \<times> (error + trade_response)" where
  "buy_stock_generic request user_id now_added now_txn file =
     (case file user_id of
        None \<Rightarrow> (file, Inl PortfolioNotFound)
      | Some portfolio \<Rightarrow>
          let total_cost = req_quantity request * req_price request in
          if cash portfolio < total_cost then (file, Inl InsufficientFunds)
          else
            let portfolio1 = portfolio\<lparr>cash := cash portfolio - total_cost\<rparr>;
                updated =
                  (case find_position (req_ticker request) (positions portfolio1) of
                     Some i \<Rightarrow>
                       let existing_position = positions portfolio1 ! i;
                           total_quantity = quantity existing_position + req_quantity request;
                           total_cost_basis =
                             quantity existing_position * avgCostBasis existing_position
                             + req_quantity request * req_price request
                       in if total_quantity = 0 then Inl ZeroDivisionError
                          else
                            let existing_position' = existing_position
                                  \<lparr>avgCostBasis := total_cost_basis / total_quantity,
                                   quantity := total_quantity\<rparr>
                            in Inr ((positions portfolio1)[i := existing_position'])
                   | None \<Rightarrow>
                       Inr (positions portfolio1 @
                         [\<lparr>ticker = req_ticker request,
                           quantity = req_quantity request,
                           avgCostBasis = req_price request,
                           currentPrice = None, marketValue = None,
                           unrealizedPL = None, unrealizedPLPercent = None,
                           addedAt = now_added\<rparr>]))
            in (case updated of
                 Inl e \<Rightarrow> (file, Inl e)
               | Inr positions' \<Rightarrow>
                   let portfolio2 = portfolio1\<lparr>positions := positions'\<rparr>;
                       transaction_id = transaction_id_of (transactions portfolio2);
                       portfolio3 = portfolio2\<lparr>transactions := transactions portfolio2 @
                         [\<lparr>t_id = transaction_id,
                           t_ticker = req_ticker request,
                           t_type = ''buy'',
                           t_quantity = req_quantity request,
                           t_price = req_price request,
                           t_timestamp = now_txn,
                           t_fees = 0\<rparr>]\<rparr>
                   in (file(user_id \<mapsto> portfolio3),
                       Inr \<lparr>message = ''Stock purchased successfully'',
                            transactionId = transaction_id\<rparr>)))"

text \<open>
  \<^verbatim>\<open>sell_stock\<close>, for any type of numbers. \<^verbatim>\<open>list.remove(position)\<close> deletes the first element equal to the
  (already decremented) position, which is \<open>remove1\<close>.
\<close>

definition sell_stock_generic ::
  "'n::{zero,plus,minus,times,ord} position_request \<Rightarrow> string \<Rightarrow> string \<Rightarrow>
     'n portfolios \<Rightarrow> 'n portfolios \<times> (error + trade_response)" where
  "sell_stock_generic request user_id now_txn file =
     (case file user_id of
        None \<Rightarrow> (file, Inl PortfolioNotFound)
      | Some portfolio \<Rightarrow>
          (case find_position (req_ticker request) (positions portfolio) of
             None \<Rightarrow> (file, Inl PositionNotFound)
           | Some i \<Rightarrow>
               let position = positions portfolio ! i in
               if quantity position < req_quantity request then (file, Inl InsufficientShares)
               else
                 let proceeds = req_quantity request * req_price request;
                     portfolio1 = portfolio\<lparr>cash := cash portfolio + proceeds\<rparr>;
                     position' = position\<lparr>quantity := quantity position - req_quantity request\<rparr>;
                     positions1 = (positions portfolio1)[i := position'];
                     positions2 =
                       (if quantity position' = 0 then remove1 position' positions1
                        else positions1);
                     portfolio2 = portfolio1\<lparr>positions := positions2\<rparr>;
                     transaction_id = transaction_id_of (transactions portfolio2);
                     portfolio3 = portfolio2\<lparr>transactions := transactions portfolio2 @
                       [\<lparr>t_id = transaction_id,
                         t_ticker = req_ticker request,
                         t_type = ''sell'',
                         t_quantity = req_quantity request,
                         t_price = req_price request,
                         t_timestamp = now_txn,
                         t_fees = 0\<rparr>]\<rparr>
                 in (file(user_id \<mapsto> portfolio3),
                     Inr \<lparr>message = ''Stock sold successfully'',
                          transactionId = transaction_id\<rparr>)))"

text \<open>The two routes in exact arithmetic.\<close>

definition buy_stock ::
  "real position_request \<Rightarrow> string \<Rightarrow> string \<Rightarrow> string \<Rightarrow>
     real portfolios \<Rightarrow> real portfolios \<times> (error + trade_response)" where
  "buy_stock = buy_stock_generic"

definition sell_stock ::
  "real position_request \<Rightarrow> string \<Rightarrow> string \<Rightarrow>
     real portfolios \<Rightarrow> real portfolios \<times> (error + trade_response)" where
  "sell_stock = sell_stock_generic"



text \<open>A sequence of trading requests of one user, each applied to the file the previous one left.\<close>

datatype 'n op = Buy "'n position_request" string string | Sell "'n position_request" string

fun apply_op ::
  "string \<Rightarrow> real op \<Rightarrow> real portfolios \<Rightarrow> real portfolios \<times> (error + trade_response)" where
  "apply_op user_id (Buy request now_added now_txn) file =
     buy_stock request user_id now_added now_txn file"
| "apply_op user_id (Sell request now_txn) file = sell_stock request user_id now_txn file"


text \<open>The file and the outcome after each request of the sequence, in order.\<close>

fun run_ops ::
  "string \<Rightarrow> real op list \<Rightarrow> real portfolios \<Rightarrow> (real portfolios \<times> (error + trade_response)) list" where
  "run_ops user_id [] file = []"
| "run_ops user_id (x # xs) file =
     (let r = apply_op user_id x file in r # run_ops user_id xs (fst r))"

text \<open>The file after the whole sequence.\<close>

fun final_file :: "string \<Rightarrow> real op list \<Rightarrow> real portfolios \<Rightarrow> real portfolios" where
  "final_file user_id [] file = file"
| "final_file user_id (x # xs) file = final_file user_id xs (fst (apply_op user_id x file))"




section \<open>Valuation\<close>

text \<open>
  \<^verbatim>\<open>get_current_price\<close> asks yfinance and answers 0.0 when there is no data or the call
  fails; the model takes it as a function from ticker to price. The loop of
  \<^verbatim>\<open>calculate_portfolio_metrics\<close> carries the two running totals.
\<close>

fun metrics_loop ::
  "(string \<Rightarrow> real) \<Rightarrow> real position list \<Rightarrow> real \<Rightarrow> real \<Rightarrow> real position list \<times> real \<times> real" where
  "metrics_loop get_current_price [] total_market_value total_cost_basis =
     ([], total_market_value, total_cost_basis)"
| "metrics_loop get_current_price (position # rest) total_market_value total_cost_basis =
     (let current_price = get_current_price (ticker position);
          market_value = quantity position * current_price;
          cost_basis = quantity position * avgCostBasis position;
          unrealized_pl = market_value - cost_basis;
          position' = position
            \<lparr>currentPrice := Some current_price,
             marketValue := Some market_value,
             unrealizedPL := Some unrealized_pl,
             unrealizedPLPercent :=
               Some (if cost_basis > 0 then unrealized_pl / cost_basis * 100 else 0)\<rparr>;
          r = metrics_loop get_current_price rest
                (total_market_value + market_value) (total_cost_basis + cost_basis)
      in (position' # fst r, snd r))"

definition calculate_portfolio_metrics :: "(string \<Rightarrow> real) \<Rightarrow> real portfolio \<Rightarrow> real portfolio" where
  "calculate_portfolio_metrics get_current_price portfolio =
     (let r = metrics_loop get_current_price (positions portfolio) (cash portfolio) (cash portfolio);
          total_market_value = fst (snd r);
          total_cost_basis = snd (snd r);
          total_pl = total_market_value - total_cost_basis
      in portfolio
           \<lparr>positions := fst r,
            totalValue := Some total_market_value,
            totalPL := Some total_pl,
            totalPLPercent :=
              Some (if total_cost_basis > 0 then total_pl / total_cost_basis * 100 else 0)\<rparr>)"

text \<open>
  \<^verbatim>\<open>get_portfolio\<close> creates the user's portfolio on first access and saves it before the
  metrics are computed, so the derived fields are never written to the file.
\<close>

definition get_portfolio ::
  "(string \<Rightarrow> real) \<Rightarrow> string \<Rightarrow> real portfolios \<Rightarrow> real portfolios \<times> real portfolio" where
  "get_portfolio get_current_price user_id file =
     (case file user_id of
        None \<Rightarrow>
          let portfolio = \<lparr>userId = user_id, cash = 100000, positions = [], transactions = [],
                            totalValue = None, totalPL = None, totalPLPercent = None\<rparr>
          in (file(user_id \<mapsto> portfolio), calculate_portfolio_metrics get_current_price portfolio)
      | Some portfolio \<Rightarrow> (file, calculate_portfolio_metrics get_current_price portfolio))"

record performance =
  perf_initialValue :: real
  perf_currentValue :: real
  perf_totalReturn :: real
  perf_totalPL :: real
  perf_totalPLPercent :: real
  perf_cash :: real
  perf_investedValue :: real

text \<open>Reading a key of the portfolio dictionary that may be unset.\<close>

definition read_key :: "string \<Rightarrow> real option \<Rightarrow> error + real" where
  "read_key k v = (case v of None \<Rightarrow> Inl (KeyError k) | Some x \<Rightarrow> Inr x)"

definition get_performance :: "(string \<Rightarrow> real) \<Rightarrow> string \<Rightarrow> real portfolios \<Rightarrow> error + performance" where
  "get_performance get_current_price user_id file =
     (case file user_id of
        None \<Rightarrow> Inl PortfolioNotFound
      | Some stored \<Rightarrow>
          (let portfolio = calculate_portfolio_metrics get_current_price stored;
               initial_value = 100000
           in (case read_key ''totalValue'' (totalValue portfolio) of
                 Inl e \<Rightarrow> Inl e
               | Inr current_value \<Rightarrow>
                   (let total_return = ((current_value - initial_value) / initial_value) * 100
                    in (case read_key ''totalPL'' (totalPL portfolio) of
                          Inl e \<Rightarrow> Inl e
                        | Inr total_pl \<Rightarrow>
                            (case read_key ''totalPLPercent'' (totalPLPercent portfolio) of
                               Inl e \<Rightarrow> Inl e
                             | Inr total_pl_percent \<Rightarrow>
                                 Inr \<lparr>perf_initialValue = initial_value,
                                      perf_currentValue = current_value,
                                      perf_totalReturn = total_return,
                                      perf_totalPL = total_pl,
                                      perf_totalPLPercent = total_pl_percent,
                                      perf_cash = cash portfolio,
                                      perf_investedValue = current_value - cash portfolio\<rparr>))))))"

section \<open>Sample data\<close>

text \<open>
  The inputs the theorems below are run on: a portfolio of the mock user with a given cash
  balance and no holdings (with 100000 it is the one \<^verbatim>\<open>get_portfolio\<close> seeds), a stored
  position, a request and a logged transaction.
\<close>

definition seeded :: "real \<Rightarrow> real portfolio" where
  "seeded c = \<lparr>userId = ''user_1'', cash = c, positions = [], transactions = [],
                totalValue = None, totalPL = None, totalPLPercent = None\<rparr>"

definition held :: "string \<Rightarrow> real \<Rightarrow> real \<Rightarrow> real position" where
  "held t q a = \<lparr>ticker = t, quantity = q, avgCostBasis = a,
                  currentPrice = None, marketValue = None,
                  unrealizedPL = None, unrealizedPLPercent = None, addedAt = ''d0''\<rparr>"

definition order :: "string \<Rightarrow> real \<Rightarrow> real \<Rightarrow> real position_request" where
  "order t q p = \<lparr>req_ticker = t, req_quantity = q, req_price = p\<rparr>"

definition logged ::
  "string \<Rightarrow> string \<Rightarrow> string \<Rightarrow> real \<Rightarrow> real \<Rightarrow> string \<Rightarrow> real transaction" where
  "logged i t k q p d = \<lparr>t_id = i, t_ticker = t, t_type = k, t_quantity = q, t_price = p,
                          t_timestamp = d, t_fees = 0\<rparr>"



section \<open>Facts about the helpers\<close>

lemma str_nat_digit: "n < 10 \<Longrightarrow> str_nat n = [digit_char n]"
  by (simp add: str_nat.simps)

lemma find_position_Some:
  "find_position t ps = Some i \<Longrightarrow>
     i < length ps \<and> ticker (ps ! i) = t \<and> (\<forall>j<i. ticker (ps ! j) \<noteq> t)"
proof (induction ps arbitrary: i)
  case Nil
  then show ?case by simp
next
  case (Cons pos rest)
  show ?case
  proof (cases "ticker pos = t")
    case True
    with Cons.prems show ?thesis by simp
  next
    case False
    with Cons.prems obtain k where k: "find_position t rest = Some k" "i = Suc k"
      by auto
    from Cons.IH [OF k(1)] False k(2) show ?thesis
      by (auto simp: less_Suc_eq_0_disj)
  qed
qed

lemma find_position_None:
  "find_position t ps = None \<longleftrightarrow> t \<notin> ticker ` set ps"
  by (induction ps) auto

lemma find_position_first:
  "i < length ps \<Longrightarrow> ticker (ps ! i) = t \<Longrightarrow> (\<forall>j<i. ticker (ps ! j) \<noteq> t) \<Longrightarrow>
     find_position t ps = Some i"
proof (induction ps arbitrary: i)
  case Nil
  then show ?case by simp
next
  case (Cons pos rest)
  show ?case
  proof (cases i)
    case 0
    with Cons.prems show ?thesis by simp
  next
    case (Suc k)
    with Cons.prems have "ticker pos \<noteq> t" by auto
    moreover have "find_position t rest = Some k"
      using Cons.prems Suc by (intro Cons.IH) auto
    ultimately show ?thesis using Suc by simp
  qed
qed

lemma remove1_first:
  "\<forall>j<i. ps ! j \<noteq> x \<Longrightarrow> i < length ps \<Longrightarrow> ps ! i = x \<Longrightarrow>
     remove1 x ps = take i ps @ drop (Suc i) ps"
proof (induction ps arbitrary: i)
  case Nil
  then show ?case by simp
next
  case (Cons a ps)
  show ?case
  proof (cases i)
    case 0
    with Cons.prems show ?thesis by simp
  next
    case (Suc k)
    with Cons.prems have "a \<noteq> x" by auto
    moreover have "remove1 x ps = take k ps @ drop (Suc k) ps"
      using Cons.prems Suc by (intro Cons.IH) auto
    ultimately show ?thesis using Suc by simp
  qed
qed

lemma remove1_found:
  assumes "find_position t ps = Some i" and "ticker x = t"
  shows "remove1 x (ps[i := x]) = take i ps @ drop (Suc i) ps"
proof -
  from find_position_Some [OF assms(1)]
  have i: "i < length ps" and first: "\<forall>j<i. ticker (ps ! j) \<noteq> t" by auto
  have "\<forall>j<i. (ps[i := x]) ! j \<noteq> x"
    using first assms(2) by auto
  then have "remove1 x (ps[i := x]) = take i (ps[i := x]) @ drop (Suc i) (ps[i := x])"
    using i by (intro remove1_first) auto
  then show ?thesis by simp
qed

section \<open>The branches of the trading routes\<close>

text \<open>One equation per path through \<^verbatim>\<open>buy_stock\<close> and \<^verbatim>\<open>sell_stock\<close>.\<close>

lemma buy_stock_no_portfolio:
  "file user_id = None \<Longrightarrow>
     buy_stock request user_id now_added now_txn file = (file, Inl PortfolioNotFound)"
  by (simp add: buy_stock_def buy_stock_generic_def)

lemma buy_stock_insufficient:
  "file user_id = Some portfolio \<Longrightarrow> cash portfolio < req_quantity request * req_price request \<Longrightarrow>
     buy_stock request user_id now_added now_txn file = (file, Inl InsufficientFunds)"
  by (simp add: buy_stock_def buy_stock_generic_def)




lemma sell_stock_no_portfolio:
  "file user_id = None \<Longrightarrow>
     sell_stock request user_id now_txn file = (file, Inl PortfolioNotFound)"
  by (simp add: sell_stock_def sell_stock_generic_def)

lemma sell_stock_no_position:
  "file user_id = Some portfolio \<Longrightarrow>
   find_position (req_ticker request) (positions portfolio) = None \<Longrightarrow>
     sell_stock request user_id now_txn file = (file, Inl PositionNotFound)"
  by (simp add: sell_stock_def sell_stock_generic_def)

lemma sell_stock_insufficient:
  "file user_id = Some portfolio \<Longrightarrow>
   find_position (req_ticker request) (positions portfolio) = Some i \<Longrightarrow>
   quantity (positions portfolio ! i) < req_quantity request \<Longrightarrow>
     sell_stock request user_id now_txn file = (file, Inl InsufficientShares)"
  by (simp add: sell_stock_def sell_stock_generic_def Let_def)

lemma sell_stock_partial:
  "file user_id = Some portfolio \<Longrightarrow>
   find_position (req_ticker request) (positions portfolio) = Some i \<Longrightarrow>
   req_quantity request < quantity (positions portfolio ! i) \<Longrightarrow>
     sell_stock request user_id now_txn file =
       (file(user_id \<mapsto> portfolio
          \<lparr>cash := cash portfolio + req_quantity request * req_price request,
           positions := (positions portfolio)
             [i := (positions portfolio ! i)
                \<lparr>quantity := quantity (positions portfolio ! i) - req_quantity request\<rparr>],
           transactions := transactions portfolio @
             [\<lparr>t_id = transaction_id_of (transactions portfolio),
               t_ticker = req_ticker request, t_type = ''sell'',
               t_quantity = req_quantity request, t_price = req_price request,
               t_timestamp = now_txn, t_fees = 0\<rparr>]\<rparr>),
        Inr \<lparr>message = ''Stock sold successfully'',
             transactionId = transaction_id_of (transactions portfolio)\<rparr>)"
  by (simp add: sell_stock_def sell_stock_generic_def Let_def)

lemma sell_stock_all:
  assumes "file user_id = Some portfolio"
    and "find_position (req_ticker request) (positions portfolio) = Some i"
    and "req_quantity request = quantity (positions portfolio ! i)"
  shows "sell_stock request user_id now_txn file =
       (file(user_id \<mapsto> portfolio
          \<lparr>cash := cash portfolio + req_quantity request * req_price request,
           positions := take i (positions portfolio) @ drop (Suc i) (positions portfolio),
           transactions := transactions portfolio @
             [\<lparr>t_id = transaction_id_of (transactions portfolio),
               t_ticker = req_ticker request, t_type = ''sell'',
               t_quantity = req_quantity request, t_price = req_price request,
               t_timestamp = now_txn, t_fees = 0\<rparr>]\<rparr>),
        Inr \<lparr>message = ''Stock sold successfully'',
             transactionId = transaction_id_of (transactions portfolio)\<rparr>)"
proof -
  from find_position_Some [OF assms(2)]
  have t: "ticker (positions portfolio ! i) = req_ticker request" by simp
  have "remove1 ((positions portfolio ! i)\<lparr>quantity := 0\<rparr>)
          ((positions portfolio)[i := (positions portfolio ! i)\<lparr>quantity := 0\<rparr>])
        = take i (positions portfolio) @ drop (Suc i) (positions portfolio)"
    using t by (intro remove1_found [OF assms(2)]) simp
  then show ?thesis
    using assms by (simp add: sell_stock_def sell_stock_generic_def Let_def)
qed

text \<open>What every failure and every success of the two routes has in common.\<close>

lemma buy_stock_error_unchanged:
  "snd (buy_stock request user_id now_added now_txn file) = Inl e \<Longrightarrow>
     fst (buy_stock request user_id now_added now_txn file) = file"
  by (auto simp: buy_stock_def buy_stock_generic_def Let_def split: option.splits sum.splits if_splits)

lemma sell_stock_error_unchanged:
  "snd (sell_stock request user_id now_txn file) = Inl e \<Longrightarrow>
     fst (sell_stock request user_id now_txn file) = file"
  by (auto simp: sell_stock_def sell_stock_generic_def Let_def split: option.splits sum.splits if_splits)

lemma buy_stock_success:
  assumes "file user_id = Some portfolio"
    and "snd (buy_stock request user_id now_added now_txn file) = Inr response"
  shows "\<exists>positions'.
     fst (buy_stock request user_id now_added now_txn file) =
       file(user_id \<mapsto> portfolio
          \<lparr>cash := cash portfolio - req_quantity request * req_price request,
           positions := positions',
           transactions := transactions portfolio @
             [\<lparr>t_id = transaction_id_of (transactions portfolio),
               t_ticker = req_ticker request, t_type = ''buy'',
               t_quantity = req_quantity request, t_price = req_price request,
               t_timestamp = now_txn, t_fees = 0\<rparr>]\<rparr>)
     \<and> transactionId response = transaction_id_of (transactions portfolio)
     \<and> \<not> cash portfolio < req_quantity request * req_price request"
  using assms
  by (auto simp: buy_stock_def buy_stock_generic_def Let_def split: option.splits sum.splits if_splits)

lemma sell_stock_success:
  assumes "file user_id = Some portfolio"
    and "snd (sell_stock request user_id now_txn file) = Inr response"
  shows "\<exists>positions'.
     fst (sell_stock request user_id now_txn file) =
       file(user_id \<mapsto> portfolio
          \<lparr>cash := cash portfolio + req_quantity request * req_price request,
           positions := positions',
           transactions := transactions portfolio @
             [\<lparr>t_id = transaction_id_of (transactions portfolio),
               t_ticker = req_ticker request, t_type = ''sell'',
               t_quantity = req_quantity request, t_price = req_price request,
               t_timestamp = now_txn, t_fees = 0\<rparr>]\<rparr>)
     \<and> transactionId response = transaction_id_of (transactions portfolio)"
  using assms
  by (auto simp: sell_stock_def sell_stock_generic_def Let_def split: option.splits sum.splits if_splits)

section \<open>Facts about single requests and sequences\<close>

lemma apply_op_error_unchanged:
  "snd (apply_op user_id x file) = Inl e \<Longrightarrow> fst (apply_op user_id x file) = file"
  by (cases x) (simp_all add: buy_stock_error_unchanged sell_stock_error_unchanged)

lemma apply_op_success:
  assumes "file user_id = Some portfolio"
    and "snd (apply_op user_id x file) = Inr response"
  shows "\<exists>portfolio' t.
     fst (apply_op user_id x file) = file(user_id \<mapsto> portfolio')
     \<and> transactions portfolio' = transactions portfolio @ [t]
     \<and> t_id t = transaction_id_of (transactions portfolio)
     \<and> t_fees t = 0
     \<and> transactionId response = t_id t"
proof (cases x)
  case (Buy request now_added now_txn)
  with assms(2) have "snd (buy_stock request user_id now_added now_txn file) = Inr response"
    by simp
  from buy_stock_success [OF assms(1) this] obtain positions' where
    "fst (buy_stock request user_id now_added now_txn file) =
       file(user_id \<mapsto> portfolio
          \<lparr>cash := cash portfolio - req_quantity request * req_price request,
           positions := positions',
           transactions := transactions portfolio @
             [\<lparr>t_id = transaction_id_of (transactions portfolio),
               t_ticker = req_ticker request, t_type = ''buy'',
               t_quantity = req_quantity request, t_price = req_price request,
               t_timestamp = now_txn, t_fees = 0\<rparr>]\<rparr>)"
    and "transactionId response = transaction_id_of (transactions portfolio)"
    by blast
  then show ?thesis
    using Buy by (intro exI conjI) (assumption | simp)+
next
  case (Sell request now_txn)
  with assms(2) have "snd (sell_stock request user_id now_txn file) = Inr response"
    by simp
  from sell_stock_success [OF assms(1) this] obtain positions' where
    "fst (sell_stock request user_id now_txn file) =
       file(user_id \<mapsto> portfolio
          \<lparr>cash := cash portfolio + req_quantity request * req_price request,
           positions := positions',
           transactions := transactions portfolio @
             [\<lparr>t_id = transaction_id_of (transactions portfolio),
               t_ticker = req_ticker request, t_type = ''sell'',
               t_quantity = req_quantity request, t_price = req_price request,
               t_timestamp = now_txn, t_fees = 0\<rparr>]\<rparr>)"
    and "transactionId response = transaction_id_of (transactions portfolio)"
    by blast
  then show ?thesis
    using Sell by (intro exI conjI) (assumption | simp)+
qed



lemma run_ops_length: "length (run_ops user_id xs file) = length xs"
  by (induction xs arbitrary: "file") (simp_all add: Let_def)

lemma final_file_run_ops:
  "final_file user_id xs file =
     (if xs = [] then file else fst (last (run_ops user_id xs file)))"
proof (induction xs arbitrary: "file")
  case Nil
  show ?case by simp
next
  case (Cons x xs)
  have "run_ops user_id xs (fst (apply_op user_id x file)) = [] \<longleftrightarrow> xs = []"
    using run_ops_length [of user_id xs "fst (apply_op user_id x file)"] by auto
  with Cons.IH [of "fst (apply_op user_id x file)"] show ?case
    by (simp add: Let_def)
qed

section \<open>Facts about the valuation loop\<close>

text \<open>The loop maps the positions one by one and adds to the two totals it is started with.\<close>

lemma metrics_loop_positions:
  "fst (metrics_loop get_current_price ps m c) =
     map (\<lambda>position. position
            \<lparr>currentPrice := Some (get_current_price (ticker position)),
             marketValue := Some (quantity position * get_current_price (ticker position)),
             unrealizedPL :=
               Some (quantity position * get_current_price (ticker position)
                     - quantity position * avgCostBasis position),
             unrealizedPLPercent :=
               Some (if quantity position * avgCostBasis position > 0
                     then (quantity position * get_current_price (ticker position)
                           - quantity position * avgCostBasis position)
                          / (quantity position * avgCostBasis position) * 100
                     else 0)\<rparr>) ps"
  by (induction ps arbitrary: m c) (simp_all add: Let_def)

lemma metrics_loop_market_value:
  "fst (snd (metrics_loop get_current_price ps m c)) =
     m + (\<Sum>position\<leftarrow>ps. quantity position * get_current_price (ticker position))"
  by (induction ps arbitrary: m c) (simp_all add: Let_def)

lemma metrics_loop_cost_basis:
  "snd (snd (metrics_loop get_current_price ps m c)) =
     c + (\<Sum>position\<leftarrow>ps. quantity position * avgCostBasis position)"
  by (induction ps arbitrary: m c) (simp_all add: Let_def)

section \<open>Facts about transaction ids\<close>

text \<open>The decimal rendering is injective, so different numbers give different ids.\<close>

lemma str_nat_nonempty: "str_nat n \<noteq> []"
  by (subst str_nat.simps) simp

lemma digit_char_inj:
  assumes "a < 10" and "b < 10" and "digit_char a = digit_char b"
  shows "a = b"
proof -
  have "distinct ''0123456789''"
    by simp
  moreover have "a < length ''0123456789''" "b < length ''0123456789''"
    using assms(1,2) by simp_all
  ultimately show ?thesis
    using assms(3) unfolding digit_char_def by (simp only: nth_eq_iff_index_eq)
qed

lemma str_nat_inj: "str_nat m = str_nat n \<Longrightarrow> m = n"
proof (induction m arbitrary: n rule: str_nat.induct)
  case (1 m)
  show ?case
  proof (cases "m < 10")
    case m: True
    show ?thesis
    proof (cases "n < 10")
      case True
      with m "1.prems" show ?thesis
        by (simp add: str_nat_digit digit_char_inj)
    next
      case False
      then have "str_nat n = str_nat (n div 10) @ [digit_char (n mod 10)]"
        by (subst str_nat.simps) simp
      with m "1.prems" str_nat_nonempty [of "n div 10"] show ?thesis
        by (simp add: str_nat_digit)
    qed
  next
    case m: False
    then have sm: "str_nat m = str_nat (m div 10) @ [digit_char (m mod 10)]"
      by (subst str_nat.simps) simp
    show ?thesis
    proof (cases "n < 10")
      case True
      with sm "1.prems" str_nat_nonempty [of "m div 10"] show ?thesis
        by (simp add: str_nat_digit)
    next
      case False
      then have "str_nat n = str_nat (n div 10) @ [digit_char (n mod 10)]"
        by (subst str_nat.simps) simp
      with sm "1.prems" have
        q: "str_nat (m div 10) = str_nat (n div 10)" and
        d: "digit_char (m mod 10) = digit_char (n mod 10)"
        by simp_all
      from "1.IH" [OF m q] have "m div 10 = n div 10" .
      moreover from d have "m mod 10 = n mod 10"
        by (intro digit_char_inj) simp_all
      ultimately show ?thesis
        by (metis div_mult_mod_eq)
    qed
  qed
qed

lemma txn_ids_distinct: "distinct (map (\<lambda>n. ''txn_'' @ str_nat n) [a..<b])"
  by (simp add: distinct_map inj_on_def str_nat_inj)

lemma run_ops_transactions:
  assumes "file user_id = Some portfolio"
    and "\<forall>r \<in> set (run_ops user_id xs file). \<not> isl (snd r)"
  shows "\<exists>portfolio' new. final_file user_id xs file user_id = Some portfolio'
     \<and> transactions portfolio' = transactions portfolio @ new
     \<and> map t_id new = map (\<lambda>n. ''txn_'' @ str_nat n)
          [Suc (length (transactions portfolio)) ..<
           Suc (length (transactions portfolio) + length xs)]
     \<and> list_all (\<lambda>t. t_fees t = 0) new"
  using assms
proof (induction xs arbitrary: "file" portfolio)
  case Nil
  then show ?case
    by simp
next
  case (Cons x xs)
  let ?r = "apply_op user_id x file"
  let ?k = "length (transactions portfolio)"
  from Cons.prems(2) have "\<not> isl (snd ?r)"
    and rest: "\<forall>r \<in> set (run_ops user_id xs (fst ?r)). \<not> isl (snd r)"
    by (simp_all add: Let_def)
  then obtain response where "snd ?r = Inr response"
    by (cases "snd ?r") simp_all
  from apply_op_success [of "file" user_id portfolio x response, OF Cons.prems(1) this]
  obtain p1 t where
    f1: "fst ?r = file(user_id \<mapsto> p1)"
    and t1: "transactions p1 = transactions portfolio @ [t]"
    and id1: "t_id t = transaction_id_of (transactions portfolio)"
    and fee1: "t_fees t = 0"
    by blast
  from f1 have s1: "fst ?r user_id = Some p1"
    by simp
  from Cons.IH [of "fst ?r" p1, OF s1 rest]
  obtain portfolio' new where
    fin: "final_file user_id xs (fst ?r) user_id = Some portfolio'"
    and tr: "transactions portfolio' = transactions p1 @ new"
    and ids: "map t_id new = map (\<lambda>n. ''txn_'' @ str_nat n)
          [Suc (length (transactions p1)) ..< Suc (length (transactions p1) + length xs)]"
    and fees: "list_all (\<lambda>t. t_fees t = 0) new"
    by blast
  have "[Suc ?k ..< Suc (?k + length (x # xs))]
          = Suc ?k # [Suc (Suc ?k) ..< Suc (Suc ?k + length xs)]"
    by (subst upt_conv_Cons) simp_all
  with ids t1 id1 have "map t_id (t # new) = map (\<lambda>n. ''txn_'' @ str_nat n)
          [Suc ?k ..< Suc (?k + length (x # xs))]"
    by (simp add: transaction_id_of_def)
  moreover from tr t1 have "transactions portfolio' = transactions portfolio @ (t # new)"
    by simp
  moreover from fin have "final_file user_id (x # xs) file user_id = Some portfolio'"
    by simp
  moreover from fees fee1 have "list_all (\<lambda>t. t_fees t = 0) (t # new)"
    by simp
  ultimately show ?case
    by blast
qed

section \<open>When a request is accepted\<close>



section \<open>Facts about double arithmetic\<close>









section \<open>The routes in double arithmetic\<close>








section \<open>Running the routes on sample data\<close>

text \<open>The equations that evaluate a route on concrete data.\<close>

lemmas run_simps =
  buy_stock_def buy_stock_generic_def sell_stock_def sell_stock_generic_def Let_def transaction_id_of_def str_nat_digit digit_char_def
  seeded_def held_def order_def logged_def


text \<open>
  The portfolio \<^verbatim>\<open>get_portfolio\<close> creates for the mock user is \<open>seeded 100000\<close>; a stored
  portfolio is not written again.
\<close>

lemma get_portfolio_seeds:
  "fst (get_portfolio get_current_price (verify_token authorization) Map.empty)
     = [''user_1'' \<mapsto> seeded 100000]"
  by (simp add: get_portfolio_def verify_token_def seeded_def Let_def)

lemma get_portfolio_keeps:
  "file user_id = Some portfolio \<Longrightarrow> fst (get_portfolio get_current_price user_id file) = file"
  by (simp add: get_portfolio_def)

section \<open>Claims\<close>



text \<open>
  C2. \<^verbatim>\<open>sell_stock\<close> on an existing portfolio fails with \<open>PositionNotFound\<close> exactly when no
  position has the ticker. When \<open>find_position\<close> answers the position, it fails with
  \<open>InsufficientShares\<close> exactly when the held quantity is strictly less than the
  requested one; otherwise it succeeds, the cash grows by quantity times price, and the
  position's quantity drops by the requested quantity, the position being deleted from
  the list when nothing is left. The average cost of no position changes.
\<close>

theorem sell_rules:
  assumes "file user_id = Some portfolio"
    and "sell_stock request user_id now_txn file = (file', outcome)"
  shows "(outcome = Inl PositionNotFound \<longleftrightarrow>
            req_ticker request \<notin> ticker ` set (positions portfolio))
     \<and> (\<forall>i. find_position (req_ticker request) (positions portfolio) = Some i \<longrightarrow>
          i < length (positions portfolio)
          \<and> ticker (positions portfolio ! i) = req_ticker request
          \<and> (outcome = Inl InsufficientShares \<longleftrightarrow>
                quantity (positions portfolio ! i) < req_quantity request)
          \<and> (\<not> quantity (positions portfolio ! i) < req_quantity request \<longrightarrow>
               (\<exists>response portfolio'. outcome = Inr response
                  \<and> file' user_id = Some portfolio'
                  \<and> cash portfolio' = cash portfolio + req_quantity request * req_price request
                  \<and> positions portfolio' =
                      (if quantity (positions portfolio ! i) - req_quantity request = 0
                       then take i (positions portfolio) @ drop (Suc i) (positions portfolio)
                       else (positions portfolio)
                         [i := (positions portfolio ! i)
                            \<lparr>quantity := quantity (positions portfolio ! i) - req_quantity request\<rparr>])
                  \<and> map avgCostBasis (positions portfolio') =
                      (if quantity (positions portfolio ! i) - req_quantity request = 0
                       then map avgCostBasis
                              (take i (positions portfolio) @ drop (Suc i) (positions portfolio))
                       else map avgCostBasis (positions portfolio)))))"
proof (cases "find_position (req_ticker request) (positions portfolio)")
  case None
  then have absent: "req_ticker request \<notin> ticker ` set (positions portfolio)"
    by (simp add: find_position_None)
  from sell_stock_no_position [of "file" user_id portfolio request now_txn] assms None
  have "outcome = Inl PositionNotFound"
    by simp
  with None absent show ?thesis
    by simp
next
  case (Some i)
  let ?ps = "positions portfolio"
  from find_position_Some [OF Some]
  have i: "i < length ?ps" and ti: "ticker (?ps ! i) = req_ticker request"
    by auto
  have present: "req_ticker request \<in> ticker ` set ?ps"
    using Some find_position_None [of "req_ticker request" ?ps] by auto
  consider (short) "quantity (?ps ! i) < req_quantity request"
    | (all) "req_quantity request = quantity (?ps ! i)"
    | (part) "req_quantity request < quantity (?ps ! i)"
    by linarith
  then show ?thesis
  proof cases
    case short
    from sell_stock_insufficient [of "file" user_id portfolio request i now_txn] assms Some short
    have "outcome = Inl InsufficientShares"
      by simp
    with Some i ti present short show ?thesis
      by (simp add: InsufficientShares_def PositionNotFound_def)
  next
    case all
    from sell_stock_all [of "file" user_id portfolio request i now_txn] assms Some all
    have "file' = file(user_id \<mapsto> portfolio
          \<lparr>cash := cash portfolio + req_quantity request * req_price request,
           positions := take i ?ps @ drop (Suc i) ?ps,
           transactions := transactions portfolio @
             [\<lparr>t_id = transaction_id_of (transactions portfolio),
               t_ticker = req_ticker request, t_type = ''sell'',
               t_quantity = req_quantity request, t_price = req_price request,
               t_timestamp = now_txn, t_fees = 0\<rparr>]\<rparr>)"
      and "outcome = Inr \<lparr>message = ''Stock sold successfully'',
             transactionId = transaction_id_of (transactions portfolio)\<rparr>"
      by simp_all
    with Some i ti present all show ?thesis
      by simp
  next
    case part
    from sell_stock_partial [of "file" user_id portfolio request i now_txn] assms Some part
    have "file' = file(user_id \<mapsto> portfolio
          \<lparr>cash := cash portfolio + req_quantity request * req_price request,
           positions := ?ps[i := (?ps ! i)\<lparr>quantity := quantity (?ps ! i) - req_quantity request\<rparr>],
           transactions := transactions portfolio @
             [\<lparr>t_id = transaction_id_of (transactions portfolio),
               t_ticker = req_ticker request, t_type = ''sell'',
               t_quantity = req_quantity request, t_price = req_price request,
               t_timestamp = now_txn, t_fees = 0\<rparr>]\<rparr>)"
      and "outcome = Inr \<lparr>message = ''Stock sold successfully'',
             transactionId = transaction_id_of (transactions portfolio)\<rparr>"
      by simp_all
    with Some i ti present part show ?thesis
      by (simp add: map_update list_update_same_conv)
  qed
qed

theorem sell_rules_witness:
  "[''user_1'' \<mapsto> (seeded 5000)\<lparr>positions := [held ''MSFT'' 1 50, held ''AAPL'' 10 100]\<rparr>] ''user_1''
     = Some ((seeded 5000)\<lparr>positions := [held ''MSFT'' 1 50, held ''AAPL'' 10 100]\<rparr>)
   \<and> sell_stock (order ''AAPL'' 10 120) ''user_1'' ''d2''
       [''user_1'' \<mapsto> (seeded 5000)\<lparr>positions := [held ''MSFT'' 1 50, held ''AAPL'' 10 100]\<rparr>]
     = ([''user_1'' \<mapsto> (seeded 6200)
          \<lparr>positions := [held ''MSFT'' 1 50],
           transactions := [logged ''txn_1'' ''AAPL'' ''sell'' 10 120 ''d2'']\<rparr>],
        Inr \<lparr>message = ''Stock sold successfully'', transactionId = ''txn_1''\<rparr>)
   \<and> find_position ''AAPL'' [held ''MSFT'' 1 50, held ''AAPL'' 10 100] = Some 1
   \<and> (\<exists>portfolio'.
         [''user_1'' \<mapsto> (seeded 6200)
          \<lparr>positions := [held ''MSFT'' 1 50],
           transactions := [logged ''txn_1'' ''AAPL'' ''sell'' 10 120 ''d2'']\<rparr>] ''user_1''
           = Some portfolio'
         \<and> cash portfolio' = 6200
         \<and> positions portfolio' = [held ''MSFT'' 1 50]
         \<and> map avgCostBasis (positions portfolio') = [50])"
proof -
  let ?p = "(seeded 5000)\<lparr>positions := [held ''MSFT'' 1 50, held ''AAPL'' 10 100]\<rparr>"
  let ?r = "order ''AAPL'' 10 120"
  let ?f' = "[''user_1'' \<mapsto> (seeded 6200)
          \<lparr>positions := [held ''MSFT'' 1 50],
           transactions := [logged ''txn_1'' ''AAPL'' ''sell'' 10 120 ''d2'']\<rparr>]"
  have h1: "[''user_1'' \<mapsto> ?p] ''user_1'' = Some ?p"
    by simp
  have h2: "sell_stock ?r ''user_1'' ''d2'' [''user_1'' \<mapsto> ?p]
     = (?f', Inr \<lparr>message = ''Stock sold successfully'', transactionId = ''txn_1''\<rparr>)"
    by (simp add: run_simps)
  have h3: "find_position ''AAPL'' [held ''MSFT'' 1 50, held ''AAPL'' 10 100] = Some 1"
    by (simp add: held_def)
  then have h3': "find_position (req_ticker ?r) (positions ?p) = Some 1"
    by (simp add: order_def)
  have enough: "\<not> quantity (positions ?p ! 1) < req_quantity ?r"
    by (simp add: held_def order_def)
  note at_input = sell_rules [OF h1 h2, THEN conjunct2, THEN spec, THEN mp, OF h3',
      THEN conjunct2, THEN conjunct2, THEN conjunct2, THEN mp, OF enough]
  from at_input obtain response portfolio' where
    p': "?f' ''user_1'' = Some portfolio'"
    and c: "cash portfolio' = cash ?p + req_quantity ?r * req_price ?r"
    and ps: "positions portfolio' =
                      (if quantity (positions ?p ! 1) - req_quantity ?r = 0
                       then take 1 (positions ?p) @ drop (Suc 1) (positions ?p)
                       else (positions ?p)
                         [1 := (positions ?p ! 1)
                            \<lparr>quantity := quantity (positions ?p ! 1) - req_quantity ?r\<rparr>])"
    and av: "map avgCostBasis (positions portfolio') =
                      (if quantity (positions ?p ! 1) - req_quantity ?r = 0
                       then map avgCostBasis
                              (take 1 (positions ?p) @ drop (Suc 1) (positions ?p))
                       else map avgCostBasis (positions ?p))"
    by (elim exE conjE) (rule that, assumption+)
  from c have "cash portfolio' = 6200"
    by (simp add: seeded_def order_def)
  moreover from ps have "positions portfolio' = [held ''MSFT'' 1 50]"
    by (simp add: held_def order_def)
  moreover from av have "map avgCostBasis (positions portfolio') = [50]"
    by (simp add: held_def order_def)
  ultimately have "\<exists>portfolio'. ?f' ''user_1'' = Some portfolio'
         \<and> cash portfolio' = 6200
         \<and> positions portfolio' = [held ''MSFT'' 1 50]
         \<and> map avgCostBasis (positions portfolio') = [50]"
    using p' by (intro exI [of _ portfolio'] conjI)
  with h1 h2 h3 show ?thesis
    by (intro conjI)
qed






text \<open>
  C5. When a buy or a sell fails with \<open>InsufficientFunds\<close>, \<open>InsufficientShares\<close> or
  \<open>PositionNotFound\<close>, the stored file, and with it the portfolio's cash, positions and
  transactions, is exactly what it was before the call.
\<close>

theorem errors_leave_file:
  assumes "apply_op user_id x file = (file', Inl e)"
    and "e = InsufficientFunds \<or> e = InsufficientShares \<or> e = PositionNotFound"
  shows "file' = file"
proof -
  from assms(1) have "snd (apply_op user_id x file) = Inl e"
    by simp
  then have "fst (apply_op user_id x file) = file"
    by (rule apply_op_error_unchanged)
  with assms(1) show ?thesis
    by simp
qed

theorem errors_leave_file_witness:
  "apply_op ''user_1'' (Buy (order ''AAPL'' 10 151) ''d1'' ''d2'')
       [''user_1'' \<mapsto> (seeded 1500)\<lparr>positions := [held ''AAPL'' 4 100]\<rparr>]
     = ([''user_1'' \<mapsto> (seeded 1500)\<lparr>positions := [held ''AAPL'' 4 100]\<rparr>], Inl InsufficientFunds)
   \<and> apply_op ''user_1'' (Sell (order ''AAPL'' 5 200) ''d2'')
       [''user_1'' \<mapsto> (seeded 1500)\<lparr>positions := [held ''AAPL'' 4 100]\<rparr>]
     = ([''user_1'' \<mapsto> (seeded 1500)\<lparr>positions := [held ''AAPL'' 4 100]\<rparr>], Inl InsufficientShares)
   \<and> apply_op ''user_1'' (Sell (order ''MSFT'' 1 200) ''d2'')
       [''user_1'' \<mapsto> (seeded 1500)\<lparr>positions := [held ''AAPL'' 4 100]\<rparr>]
     = ([''user_1'' \<mapsto> (seeded 1500)\<lparr>positions := [held ''AAPL'' 4 100]\<rparr>], Inl PositionNotFound)"
proof -
  let ?f = "[''user_1'' \<mapsto> (seeded 1500)\<lparr>positions := [held ''AAPL'' 4 100]\<rparr>]"
  let ?b = "apply_op ''user_1'' (Buy (order ''AAPL'' 10 151) ''d1'' ''d2'') ?f"
  let ?s = "apply_op ''user_1'' (Sell (order ''AAPL'' 5 200) ''d2'') ?f"
  let ?n = "apply_op ''user_1'' (Sell (order ''MSFT'' 1 200) ''d2'') ?f"
  have b: "?b = (fst ?b, Inl InsufficientFunds)"
    by (simp add: run_simps prod_eq_iff)
  have s: "?s = (fst ?s, Inl InsufficientShares)"
    by (simp add: run_simps prod_eq_iff)
  have n: "?n = (fst ?n, Inl PositionNotFound)"
    by (simp add: run_simps prod_eq_iff)
  have "fst ?b = ?f"
    by (rule errors_leave_file [OF b]) simp
  moreover have "fst ?s = ?f"
    by (rule errors_leave_file [OF s]) simp
  moreover have "fst ?n = ?f"
    by (rule errors_leave_file [OF n]) simp
  ultimately show ?thesis
    using b s n by simp
qed




text \<open>
  C7. After a sequence of buys and sells that were all accepted, the portfolio's log is
  the log before the sequence, unchanged, followed by one new transaction per request;
  the new transactions are numbered on from the old length \<open>k\<close>: their ids are
  \<open>txn_(k+1)\<close>, \<open>txn_(k+2)\<close>, ... in this order, each the decimal rendering of 1 + the
  number of transactions logged before it, and they differ from each other. When the log
  before the sequence is numbered \<open>txn_1\<close>, ..., \<open>txn_k\<close> (the empty log of a new portfolio
  is), the whole log after it is numbered \<open>txn_1\<close>, \<open>txn_2\<close>, ... without repetition.
\<close>

theorem transaction_ids_sequential:
  assumes "file user_id = Some portfolio"
    and "\<forall>r \<in> set (run_ops user_id xs file). \<not> isl (snd r)"
  shows "\<exists>portfolio' new. final_file user_id xs file user_id = Some portfolio'
     \<and> transactions portfolio' = transactions portfolio @ new
     \<and> length new = length xs
     \<and> map t_id new = map (\<lambda>n. ''txn_'' @ str_nat n)
          [Suc (length (transactions portfolio)) ..<
           Suc (length (transactions portfolio) + length xs)]
     \<and> distinct (map t_id new)
     \<and> (map t_id (transactions portfolio) =
            map (\<lambda>n. ''txn_'' @ str_nat n) [1 ..< Suc (length (transactions portfolio))] \<longrightarrow>
          map t_id (transactions portfolio') =
            map (\<lambda>n. ''txn_'' @ str_nat n) [1 ..< Suc (length (transactions portfolio'))]
          \<and> distinct (map t_id (transactions portfolio')))"
proof -
  let ?k = "length (transactions portfolio)"
  let ?name = "\<lambda>n. ''txn_'' @ str_nat n"
  from run_ops_transactions [of "file" user_id portfolio xs, OF assms]
  obtain portfolio' new where
    fin: "final_file user_id xs file user_id = Some portfolio'"
    and tr: "transactions portfolio' = transactions portfolio @ new"
    and ids: "map t_id new = map ?name [Suc ?k ..< Suc (?k + length xs)]"
    by blast
  from ids have "length (map t_id new) = length (map ?name [Suc ?k ..< Suc (?k + length xs)])"
    by (rule arg_cong)
  then have "length new = Suc (?k + length xs) - Suc ?k"
    by (simp only: length_map length_upt)
  then have len: "length new = length xs"
    by simp
  from ids have dist: "distinct (map t_id new)"
    by (simp only: txn_ids_distinct)
  have whole: "map t_id (transactions portfolio') = map ?name [1 ..< Suc (length (transactions portfolio'))]
      \<and> distinct (map t_id (transactions portfolio'))"
    if old: "map t_id (transactions portfolio) = map ?name [1 ..< Suc ?k]"
  proof -
    have l: "length (transactions portfolio') = ?k + length xs"
      using tr len by simp
    have "[1 ..< Suc ?k + length xs] = [1 ..< Suc ?k] @ [Suc ?k ..< Suc ?k + length xs]"
      by (rule upt_add_eq_append) simp
    then have split: "[1 ..< Suc (?k + length xs)] = [1 ..< Suc ?k] @ [Suc ?k ..< Suc (?k + length xs)]"
      by (simp only: add_Suc)
    have "map t_id (transactions portfolio') = map t_id (transactions portfolio) @ map t_id new"
      using tr by simp
    also have "\<dots> = map ?name [1 ..< Suc ?k] @ map ?name [Suc ?k ..< Suc (?k + length xs)]"
      by (simp only: old ids)
    also have "\<dots> = map ?name [1 ..< Suc (?k + length xs)]"
      by (simp only: split map_append)
    finally have "map t_id (transactions portfolio') =
        map ?name [1 ..< Suc (length (transactions portfolio'))]"
      by (simp only: l)
    then show ?thesis
      by (simp only: txn_ids_distinct simp_thms)
  qed
  from fin tr len ids dist whole show ?thesis
    by blast
qed

theorem transaction_ids_sequential_witness:
  "[''user_1'' \<mapsto> seeded 100000] ''user_1'' = Some (seeded 100000)
   \<and> list_all (\<lambda>r. \<not> isl (snd r))
        (run_ops ''user_1''
          [Buy (order ''AAPL'' 10 150) ''d1'' ''d2'', Sell (order ''AAPL'' 5 200) ''d3'',
           Buy (order ''MSFT'' 1 300) ''d4'' ''d5'']
          [''user_1'' \<mapsto> seeded 100000])
   \<and> (\<exists>portfolio'.
        final_file ''user_1''
          [Buy (order ''AAPL'' 10 150) ''d1'' ''d2'', Sell (order ''AAPL'' 5 200) ''d3'',
           Buy (order ''MSFT'' 1 300) ''d4'' ''d5'']
          [''user_1'' \<mapsto> seeded 100000] ''user_1'' = Some portfolio'
        \<and> map t_id (transactions portfolio') = [''txn_1'', ''txn_2'', ''txn_3''])"
proof -
  let ?xs = "[Buy (order ''AAPL'' 10 150) ''d1'' ''d2'', Sell (order ''AAPL'' 5 200) ''d3'',
           Buy (order ''MSFT'' 1 300) ''d4'' ''d5'']"
  let ?f = "[''user_1'' \<mapsto> seeded 100000]"
  have h1: "?f ''user_1'' = Some (seeded 100000)"
    by simp
  have h2: "\<forall>r \<in> set (run_ops ''user_1'' ?xs ?f). \<not> isl (snd r)"
    by (simp add: run_simps)
  have empty: "transactions (seeded 100000) = []"
    by (simp add: seeded_def)
  from transaction_ids_sequential [of ?f "''user_1''" "seeded 100000" ?xs, OF h1 h2]
  obtain portfolio' new where
    fin: "final_file ''user_1'' ?xs ?f ''user_1'' = Some portfolio'"
    and tr: "transactions portfolio' = transactions (seeded 100000) @ new"
    and ids: "map t_id new = map (\<lambda>n. ''txn_'' @ str_nat n)
          [Suc (length (transactions (seeded 100000))) ..<
           Suc (length (transactions (seeded 100000)) + length ?xs)]"
    by (elim exE conjE) (rule that, assumption+)
  have "[Suc 0 ..< Suc (0 + length ?xs)] = [1, 2, 3]"
    by (simp add: upt_conv_Cons)
  with ids tr empty have "map t_id (transactions portfolio') = [''txn_1'', ''txn_2'', ''txn_3'']"
    by (simp add: str_nat_digit digit_char_def)
  with fin have "\<exists>portfolio'. final_file ''user_1'' ?xs ?f ''user_1'' = Some portfolio'
        \<and> map t_id (transactions portfolio') = [''txn_1'', ''txn_2'', ''txn_3'']"
    by (intro exI [of _ portfolio'] conjI)
  with h1 h2 show ?thesis
    by (simp only: list_all_iff simp_thms)
qed

text \<open>
  C8. \<^verbatim>\<open>calculate_portfolio_metrics\<close>, for any prices: each position gets its current
  price, \<open>marketValue = quantity * currentPrice\<close>,
  \<open>unrealizedPL = marketValue - quantity * avgCostBasis\<close> and
  \<open>unrealizedPLPercent = unrealizedPL / (quantity * avgCostBasis) * 100\<close> when the cost basis
  \<open>quantity * avgCostBasis\<close> is strictly positive and 0 otherwise (so a position with
  average cost 0 gets 0); the portfolio gets \<open>totalValue = cash +\<close> the sum of
  the market values, \<open>totalPL = totalValue - (cash +\<close> the sum of the cost bases\<open>)\<close> and
  \<open>totalPLPercent = totalPL /\<close> that total cost basis \<open>* 100\<close> when the total cost basis is
  strictly positive and 0 otherwise. Cash, transactions and the stored fields of the
  positions are not touched.
\<close>

theorem valuation_formulas:
  "positions (calculate_portfolio_metrics get_current_price portfolio) =
     map (\<lambda>position. position
            \<lparr>currentPrice := Some (get_current_price (ticker position)),
             marketValue := Some (quantity position * get_current_price (ticker position)),
             unrealizedPL :=
               Some (quantity position * get_current_price (ticker position)
                     - quantity position * avgCostBasis position),
             unrealizedPLPercent :=
               Some (if quantity position * avgCostBasis position > 0
                     then (quantity position * get_current_price (ticker position)
                           - quantity position * avgCostBasis position)
                          / (quantity position * avgCostBasis position) * 100
                     else 0)\<rparr>) (positions portfolio)
   \<and> list_all (\<lambda>position. avgCostBasis position = 0 \<longrightarrow> unrealizedPLPercent position = Some 0)
       (positions (calculate_portfolio_metrics get_current_price portfolio))
   \<and> totalValue (calculate_portfolio_metrics get_current_price portfolio) =
       Some (cash portfolio
             + (\<Sum>position\<leftarrow>positions portfolio.
                  quantity position * get_current_price (ticker position)))
   \<and> totalPL (calculate_portfolio_metrics get_current_price portfolio) =
       Some ((cash portfolio
              + (\<Sum>position\<leftarrow>positions portfolio.
                   quantity position * get_current_price (ticker position)))
             - (cash portfolio
                + (\<Sum>position\<leftarrow>positions portfolio. quantity position * avgCostBasis position)))
   \<and> totalPLPercent (calculate_portfolio_metrics get_current_price portfolio) =
       Some (if cash portfolio
                + (\<Sum>position\<leftarrow>positions portfolio. quantity position * avgCostBasis position) > 0
             then ((cash portfolio
                    + (\<Sum>position\<leftarrow>positions portfolio.
                         quantity position * get_current_price (ticker position)))
                   - (cash portfolio
                      + (\<Sum>position\<leftarrow>positions portfolio.
                           quantity position * avgCostBasis position)))
                  / (cash portfolio
                     + (\<Sum>position\<leftarrow>positions portfolio.
                          quantity position * avgCostBasis position)) * 100
             else 0)
   \<and> cash (calculate_portfolio_metrics get_current_price portfolio) = cash portfolio
   \<and> transactions (calculate_portfolio_metrics get_current_price portfolio) = transactions portfolio
   \<and> userId (calculate_portfolio_metrics get_current_price portfolio) = userId portfolio"
proof -
  let ?r = "metrics_loop get_current_price (positions portfolio) (cash portfolio) (cash portfolio)"
  have ps: "positions (calculate_portfolio_metrics get_current_price portfolio) = fst ?r"
    by (simp add: calculate_portfolio_metrics_def Let_def)
  have tv: "totalValue (calculate_portfolio_metrics get_current_price portfolio) = Some (fst (snd ?r))"
    by (simp add: calculate_portfolio_metrics_def Let_def)
  have tp: "totalPL (calculate_portfolio_metrics get_current_price portfolio) =
              Some (fst (snd ?r) - snd (snd ?r))"
    by (simp add: calculate_portfolio_metrics_def Let_def)
  have tpp: "totalPLPercent (calculate_portfolio_metrics get_current_price portfolio) =
              Some (if snd (snd ?r) > 0 then (fst (snd ?r) - snd (snd ?r)) / snd (snd ?r) * 100 else 0)"
    by (simp add: calculate_portfolio_metrics_def Let_def)
  have rest: "cash (calculate_portfolio_metrics get_current_price portfolio) = cash portfolio"
    "transactions (calculate_portfolio_metrics get_current_price portfolio) = transactions portfolio"
    "userId (calculate_portfolio_metrics get_current_price portfolio) = userId portfolio"
    by (simp_all add: calculate_portfolio_metrics_def Let_def)
  have zero: "list_all (\<lambda>position. avgCostBasis position = 0 \<longrightarrow> unrealizedPLPercent position = Some 0)
       (positions (calculate_portfolio_metrics get_current_price portfolio))"
    unfolding ps metrics_loop_positions by (simp add: list_all_iff)
  note ps' = ps [unfolded metrics_loop_positions]
  note tv' = tv [unfolded metrics_loop_market_value]
  note tp' = tp [unfolded metrics_loop_market_value metrics_loop_cost_basis]
  note tpp' = tpp [unfolded metrics_loop_market_value metrics_loop_cost_basis]
  show ?thesis
    by (intro conjI ps' zero tv' tp' tpp' rest)
qed

theorem valuation_formulas_witness:
  "positions (calculate_portfolio_metrics (\<lambda>t. if t = ''AAPL'' then 180 else 7)
       ((seeded 97800)\<lparr>positions := [held ''AAPL'' 15 160, held ''GIFT'' 5 0]\<rparr>))
     = [(held ''AAPL'' 15 160)
          \<lparr>currentPrice := Some 180, marketValue := Some 2700,
           unrealizedPL := Some 300, unrealizedPLPercent := Some (25 / 2)\<rparr>,
        (held ''GIFT'' 5 0)
          \<lparr>currentPrice := Some 7, marketValue := Some 35,
           unrealizedPL := Some 35, unrealizedPLPercent := Some 0\<rparr>]
   \<and> totalValue (calculate_portfolio_metrics (\<lambda>t. if t = ''AAPL'' then 180 else 7)
       ((seeded 97800)\<lparr>positions := [held ''AAPL'' 15 160, held ''GIFT'' 5 0]\<rparr>))
     = Some 100535
   \<and> totalPL (calculate_portfolio_metrics (\<lambda>t. if t = ''AAPL'' then 180 else 7)
       ((seeded 97800)\<lparr>positions := [held ''AAPL'' 15 160, held ''GIFT'' 5 0]\<rparr>))
     = Some 335
   \<and> totalPLPercent (calculate_portfolio_metrics (\<lambda>t. if t = ''AAPL'' then 180 else 7)
       ((seeded 97800)\<lparr>positions := [held ''AAPL'' 15 160, held ''GIFT'' 5 0]\<rparr>))
     = Some (335 / 1002)"
  using valuation_formulas [of "\<lambda>t. if t = ''AAPL'' then 180 else 7"
      "(seeded 97800)\<lparr>positions := [held ''AAPL'' 15 160, held ''GIFT'' 5 0]\<rparr>"]
  by (simp add: seeded_def held_def)

text \<open>
  C9. \<^verbatim>\<open>get_performance\<close> on a stored portfolio runs the valuation and answers a report
  whose \<open>currentValue\<close> is the valuation's \<open>totalValue\<close>, whose \<open>totalReturn\<close> is
  \<open>(currentValue - initialValue) / initialValue * 100\<close>, whose \<open>investedValue\<close> is
  \<open>currentValue - cash\<close>, and which carries the valuation's \<open>totalPL\<close> and
  \<open>totalPLPercent\<close>, the cash and the initial value. The initial value the route
  supplies is the starting cash 100000.
\<close>

theorem performance_report:
  assumes "file user_id = Some portfolio"
  shows "\<exists>report. get_performance get_current_price user_id file = Inr report
     \<and> totalValue (calculate_portfolio_metrics get_current_price portfolio)
         = Some (perf_currentValue report)
     \<and> perf_initialValue report = 100000
     \<and> perf_totalReturn report
         = (perf_currentValue report - perf_initialValue report) / perf_initialValue report * 100
     \<and> perf_investedValue report = perf_currentValue report - cash portfolio
     \<and> totalPL (calculate_portfolio_metrics get_current_price portfolio)
         = Some (perf_totalPL report)
     \<and> totalPLPercent (calculate_portfolio_metrics get_current_price portfolio)
         = Some (perf_totalPLPercent report)
     \<and> perf_cash report = cash portfolio"
proof -
  let ?v = "calculate_portfolio_metrics get_current_price portfolio"
  obtain tv tp tpp where
    tv: "totalValue ?v = Some tv" and tp: "totalPL ?v = Some tp" and tpp: "totalPLPercent ?v = Some tpp"
    by (simp add: calculate_portfolio_metrics_def Let_def)
  have c: "cash ?v = cash portfolio"
    by (simp add: calculate_portfolio_metrics_def Let_def)
  let ?report = "\<lparr>perf_initialValue = 100000, perf_currentValue = tv,
        perf_totalReturn = ((tv - 100000) / 100000) * 100,
        perf_totalPL = tp, perf_totalPLPercent = tpp,
        perf_cash = cash portfolio, perf_investedValue = tv - cash portfolio\<rparr>"
  have "get_performance get_current_price user_id file = Inr ?report"
    using assms tv tp tpp c by (simp add: get_performance_def read_key_def Let_def)
  then show ?thesis
    using tv tp tpp by (intro exI [of _ ?report]) simp
qed

theorem performance_report_witness:
  "[''user_1'' \<mapsto> (seeded 97800)\<lparr>positions := [held ''AAPL'' 15 160]\<rparr>] ''user_1''
     = Some ((seeded 97800)\<lparr>positions := [held ''AAPL'' 15 160]\<rparr>)
   \<and> get_performance (\<lambda>t. 180) ''user_1''
       [''user_1'' \<mapsto> (seeded 97800)\<lparr>positions := [held ''AAPL'' 15 160]\<rparr>]
     = Inr \<lparr>perf_initialValue = 100000, perf_currentValue = 100500,
            perf_totalReturn = 1 / 2, perf_totalPL = 300, perf_totalPLPercent = 30000 / 100200,
            perf_cash = 97800, perf_investedValue = 2700\<rparr>"
proof -
  let ?p = "(seeded 97800)\<lparr>positions := [held ''AAPL'' 15 160]\<rparr>"
  have h1: "[''user_1'' \<mapsto> ?p] ''user_1'' = Some ?p"
    by simp
  have v: "totalValue (calculate_portfolio_metrics (\<lambda>t. 180) ?p) = Some 100500"
    "totalPL (calculate_portfolio_metrics (\<lambda>t. 180) ?p) = Some 300"
    "totalPLPercent (calculate_portfolio_metrics (\<lambda>t. 180) ?p) = Some (30000 / 100200)"
    by (simp_all add: calculate_portfolio_metrics_def Let_def seeded_def held_def)
  have c: "cash ?p = 97800"
    by (simp add: seeded_def)
  from performance_report [of "[''user_1'' \<mapsto> ?p]" "''user_1''" ?p "\<lambda>t. 180", OF h1]
  obtain report where
    r: "get_performance (\<lambda>t. 180) ''user_1'' [''user_1'' \<mapsto> ?p] = Inr report"
    and f: "totalValue (calculate_portfolio_metrics (\<lambda>t. 180) ?p) = Some (perf_currentValue report)"
      "perf_initialValue report = 100000"
      "perf_totalReturn report
         = (perf_currentValue report - perf_initialValue report) / perf_initialValue report * 100"
      "perf_investedValue report = perf_currentValue report - cash ?p"
      "totalPL (calculate_portfolio_metrics (\<lambda>t. 180) ?p) = Some (perf_totalPL report)"
      "totalPLPercent (calculate_portfolio_metrics (\<lambda>t. 180) ?p) = Some (perf_totalPLPercent report)"
      "perf_cash report = cash ?p"
    by (elim exE conjE) (rule that, assumption+)
  from f v c have "report = \<lparr>perf_initialValue = 100000, perf_currentValue = 100500,
            perf_totalReturn = 1 / 2, perf_totalPL = 300, perf_totalPLPercent = 30000 / 100200,
            perf_cash = 97800, perf_investedValue = 2700\<rparr>"
    by (cases report) simp
  with r h1 show ?thesis
    by (simp only: simp_thms)
qed

text \<open>
  C10. The transaction a successful buy or sell appends has fees 0, whatever the request:
  a request carries a ticker, a quantity and a price and nothing else.
\<close>

theorem appended_transaction_has_no_fees:
  assumes "file user_id = Some portfolio"
    and "apply_op user_id x file = (file', Inr response)"
  shows "\<exists>portfolio' t. file' user_id = Some portfolio' \<and>
           transactions portfolio' = transactions portfolio @ [t] \<and> t_fees t = 0"
proof -
  from assms(2) have "snd (apply_op user_id x file) = Inr response"
    by simp
  from apply_op_success [OF assms(1) this] assms(2) show ?thesis
    by auto
qed

theorem appended_transaction_has_no_fees_witness:
  "[''user_1'' \<mapsto> (seeded 1500)\<lparr>positions := [held ''AAPL'' 4 100]\<rparr>] ''user_1''
     = Some ((seeded 1500)\<lparr>positions := [held ''AAPL'' 4 100]\<rparr>)
   \<and> apply_op ''user_1'' (Sell (order ''AAPL'' 1 200) ''d2'')
       [''user_1'' \<mapsto> (seeded 1500)\<lparr>positions := [held ''AAPL'' 4 100]\<rparr>]
     = ([''user_1'' \<mapsto> (seeded 1700)
          \<lparr>positions := [held ''AAPL'' 3 100],
           transactions := [logged ''txn_1'' ''AAPL'' ''sell'' 1 200 ''d2'']\<rparr>],
        Inr \<lparr>message = ''Stock sold successfully'', transactionId = ''txn_1''\<rparr>)
   \<and> (\<exists>portfolio' t.
         [''user_1'' \<mapsto> (seeded 1700)
          \<lparr>positions := [held ''AAPL'' 3 100],
           transactions := [logged ''txn_1'' ''AAPL'' ''sell'' 1 200 ''d2'']\<rparr>] ''user_1''
           = Some portfolio'
         \<and> transactions portfolio'
           = transactions ((seeded 1500)\<lparr>positions := [held ''AAPL'' 4 100]\<rparr>) @ [t]
         \<and> t_fees t = 0)"
proof -
  have h1: "[''user_1'' \<mapsto> (seeded 1500)\<lparr>positions := [held ''AAPL'' 4 100]\<rparr>] ''user_1''
     = Some ((seeded 1500)\<lparr>positions := [held ''AAPL'' 4 100]\<rparr>)"
    by simp
  have h2: "apply_op ''user_1'' (Sell (order ''AAPL'' 1 200) ''d2'')
       [''user_1'' \<mapsto> (seeded 1500)\<lparr>positions := [held ''AAPL'' 4 100]\<rparr>]
     = ([''user_1'' \<mapsto> (seeded 1700)
          \<lparr>positions := [held ''AAPL'' 3 100],
           transactions := [logged ''txn_1'' ''AAPL'' ''sell'' 1 200 ''d2'']\<rparr>],
        Inr \<lparr>message = ''Stock sold successfully'', transactionId = ''txn_1''\<rparr>)"
    by (simp add: run_simps)
  from appended_transaction_has_no_fees [OF h1 h2] h1 h2 show ?thesis
    by blast
qed

end
